theory Spec2Isabelle
  imports Complex_Main "HOL-Library.AList"
begin

section \<open>Python values and built-ins used by the application\<close>

text \<open>
  A Python \<open>str\<close> is a sequence of Unicode code points; it is modelled as a list of
  natural numbers, so that the Chinese interface texts and the letter tau of the result
  column are single elements, as they are for Python. \<open>asc\<close> embeds an ASCII literal.
\<close>

type_synonym str = "nat list"

definition asc :: "string \<Rightarrow> str" where
  "asc s = map of_char s"

text \<open>
  Numbers: Python \<open>int\<close>, and Python \<open>float\<close>. A finite float is represented by the
  rational number its literal denotes (the rounding to a double is a function of that
  number and is left out), the three special floats are constructors of their own.
\<close>

datatype num = PyInt int | PyFloat rat | PyInf | PyNegInf | PyNaN

text \<open>
  Exceptions: the handlers of the application only tell \<open>ValueError\<close> from every other
  \<open>Exception\<close>; both carry the text that \<open>str(e)\<close> yields.
\<close>

datatype exc = ValueError str | OtherException str

fun exc_str :: "exc \<Rightarrow> str" where
  "exc_str (ValueError m) = m"
| "exc_str (OtherException m) = m"

subsection \<open>\<open>str(n)\<close> for integers\<close>

function str_nat :: "nat \<Rightarrow> str" where
  "str_nat n = (if n < 10 then [48 + n] else str_nat (n div 10) @ [48 + n mod 10])"
  by pat_completeness auto
termination
  by (relation "measure id") auto

declare str_nat.simps [simp del]

definition str_int :: "int \<Rightarrow> str" where
  "str_int i = (if i < 0 then 45 # str_nat (nat (- i)) else str_nat (nat i))"

subsection \<open>\<open>s.split(c)[-1]\<close> and \<open>s.strip(c)\<close>\<close>

fun split :: "nat \<Rightarrow> str \<Rightarrow> str list" where
  "split c [] = [[]]"
| "split c (x # xs) =
     (if x = c then [] # split c xs
      else (case split c xs of
              [] \<Rightarrow> [[x]]
            | seg # segs \<Rightarrow> (x # seg) # segs))"

definition strip :: "nat \<Rightarrow> str \<Rightarrow> str" where
  "strip c s = rev (dropWhile (\<lambda>x. x = c) (rev (dropWhile (\<lambda>x. x = c) s)))"

subsection \<open>\<open>int(s)\<close> and \<open>float(s)\<close>\<close>

text \<open>
  Both built-ins strip surrounding whitespace, check and drop single underscores between
  digits, and then read a signed literal; anything else raises \<open>ValueError\<close>, which is
  \<open>None\<close> here. The model reads ASCII digits; the whitespace is that of \<open>str.isspace\<close>.
\<close>

definition is_space :: "nat \<Rightarrow> bool" where
  "is_space c \<longleftrightarrow> (9 \<le> c \<and> c \<le> 13) \<or> (28 \<le> c \<and> c \<le> 32) \<or> c = 133 \<or> c = 160
     \<or> c = 5760 \<or> (8192 \<le> c \<and> c \<le> 8202) \<or> c = 8232 \<or> c = 8233 \<or> c = 8239
     \<or> c = 8287 \<or> c = 12288"

definition strip_space :: "str \<Rightarrow> str" where
  "strip_space s = rev (dropWhile is_space (rev (dropWhile is_space s)))"

definition is_digit :: "nat \<Rightarrow> bool" where
  "is_digit c \<longleftrightarrow> 48 \<le> c \<and> c \<le> 57"

text \<open>
  The underscore pass: an underscore is allowed only after a digit and only before a
  digit, and not at the end. \<open>prev\<close> is the previous character (0 at the start).
\<close>

fun drop_underscores :: "nat \<Rightarrow> str \<Rightarrow> str option" where
  "drop_underscores prev [] = (if prev = 95 then None else Some [])"
| "drop_underscores prev (c # cs) =
     (if c = 95 then
        (if is_digit prev then drop_underscores c cs else None)
      else if prev = 95 \<and> \<not> is_digit c then None
      else map_option (Cons c) (drop_underscores c cs))"

fun digits_value :: "nat \<Rightarrow> str \<Rightarrow> nat" where
  "digits_value acc [] = acc"
| "digits_value acc (d # ds) = digits_value (10 * acc + (d - 48)) ds"

text \<open>An optional sign: the flag says whether the literal is negative.\<close>

fun take_sign :: "str \<Rightarrow> bool \<times> str" where
  "take_sign [] = (False, [])"
| "take_sign (c # cs) =
     (if c = 45 then (True, cs) else if c = 43 then (False, cs) else (False, c # cs))"

definition py_int :: "str \<Rightarrow> int option" where
  "py_int s =
     (case drop_underscores 0 (strip_space s) of
        None \<Rightarrow> None
      | Some t \<Rightarrow>
          (case take_sign t of
             (neg, ds) \<Rightarrow>
               if ds \<noteq> [] \<and> list_all is_digit ds
               then Some (if neg then - int (digits_value 0 ds) else int (digits_value 0 ds))
               else None))"

definition lower :: "nat \<Rightarrow> nat" where
  "lower c = (if 65 \<le> c \<and> c \<le> 90 then c + 32 else c)"

text \<open>
  The exponent of a float literal: \<open>e\<close> or \<open>E\<close>, an optional sign, and at least one
  digit up to the end of the string. An empty rest is exponent 0.
\<close>

definition read_exponent :: "str \<Rightarrow> int option" where
  "read_exponent s =
     (case s of
        [] \<Rightarrow> Some 0
      | c # cs \<Rightarrow>
          if lower c = 101 then
            (case take_sign cs of
               (neg, ds) \<Rightarrow>
                 if ds \<noteq> [] \<and> list_all is_digit ds
                 then Some (if neg then - int (digits_value 0 ds) else int (digits_value 0 ds))
                 else None)
          else None)"

definition scale10 :: "rat \<Rightarrow> int \<Rightarrow> rat" where
  "scale10 m e = (if 0 \<le> e then m * 10 ^ nat e else m / 10 ^ nat (- e))"

text \<open>
  A decimal literal: digits, an optional point with more digits, at least one digit in
  all, then the exponent.
\<close>

definition read_decimal :: "str \<Rightarrow> rat option" where
  "read_decimal s =
     (let ip = takeWhile is_digit s;
          r1 = dropWhile is_digit s;
          has_point = (r1 \<noteq> [] \<and> hd r1 = 46);
          r2 = (if has_point then tl r1 else r1);
          fp = (if has_point then takeWhile is_digit r2 else []);
          r3 = (if has_point then dropWhile is_digit r2 else r2)
      in if ip = [] \<and> fp = [] then None
         else (case read_exponent r3 of
                 None \<Rightarrow> None
               | Some e \<Rightarrow>
                   Some (scale10 (of_nat (digits_value 0 (ip @ fp))) (e - int (length fp)))))"

definition py_float :: "str \<Rightarrow> num option" where
  "py_float s =
     (case drop_underscores 0 (strip_space s) of
        None \<Rightarrow> None
      | Some t \<Rightarrow>
          (case take_sign t of
             (neg, body) \<Rightarrow>
               let low = map lower body in
               if low = asc ''inf'' \<or> low = asc ''infinity''
               then Some (if neg then PyNegInf else PyInf)
               else if low = asc ''nan'' then Some PyNaN
               else map_option (\<lambda>q. PyFloat (if neg then - q else q)) (read_decimal body)))"

section \<open>Interface texts\<close>

text \<open>
  The entries of the \<open>translations\<close> dictionary that \<open>predict\<close> and \<open>batch_predict\<close>
  read, for the two languages. The three \<open>*_values\<close> tables pair a description with
  the integer code of a categorical feature.
\<close>

datatype language = En | Zh

record lang_table =
  result_prefix :: str
  browse :: str
  batch_status_start :: str
  batch_status_reading :: str
  batch_status_scaling :: str
  batch_status_predicting :: str
  batch_status_saving :: str
  success_save :: str
  warning_no_file :: str
  warning_no_file_msg :: str
  error_input :: str
  error_occurred :: str
  success :: str
  error_title :: str
  FM_values :: "(str \<times> int) list"
  FT_values :: "(str \<times> int) list"
  BS_values :: "(str \<times> int) list"

definition translations_en :: lang_table where
  "translations_en = \<lparr>
     result_prefix = asc ''Predicted '' @ [964] @ asc ''u: '',
     browse = asc ''Browse'',
     batch_status_start = asc ''Starting batch prediction...'',
     batch_status_reading = asc ''Reading file...'',
     batch_status_scaling = asc ''Scaling input data...'',
     batch_status_predicting = asc ''Performing prediction...'',
     batch_status_saving = asc ''Saving prediction results...'',
     success_save = asc ''Batch prediction completed. Results saved to '',
     warning_no_file = asc ''No file selected'',
     warning_no_file_msg = asc ''Please select an Excel file for batch prediction.'',
     error_input = asc ''Input Error: Please ensure all fields contain valid numbers.'',
     error_occurred = asc ''An error occurred:'',
     success = asc ''Success'',
     error_title = asc ''Error'',
     FM_values = [(asc ''FRP-sand layer debonding'', 1),
       (asc ''FRP bar pullout'', 2),
       (asc ''Concrete shear failure'', 3),
       (asc ''FRP bar rupture'', 4),
       (asc ''Concrete splitting'', 5)],
     FT_values = [(asc ''GFRP'', 1), (asc ''CFRP'', 2), (asc ''BFRP'', 3)],
     BS_values = [(asc ''Sand-coated'', 1),
       (asc ''Fiber-wrapped sand-coated'', 2),
       (asc ''Ribbed'', 3),
       (asc ''Fiber-wrapped'', 4),
       (asc ''Sand-coated ribbed'', 5)] \<rparr>"

definition translations_zh :: lang_table where
  "translations_zh = \<lparr>
     result_prefix = [39044, 27979] @ asc '' '' @ [964] @ asc ''u: '',
     browse = [27983, 35272],
     batch_status_start = [24320, 22987, 25209, 37327, 39044, 27979] @ asc ''...'',
     batch_status_reading = [27491, 22312, 35835, 21462, 25991, 20214] @ asc ''...'',
     batch_status_scaling =
       [27491, 22312, 32553, 25918, 36755, 20837, 25968, 25454] @ asc ''...'',
     batch_status_predicting = [27491, 22312, 36827, 34892, 39044, 27979] @ asc ''...'',
     batch_status_saving =
       [27491, 22312, 20445, 23384, 39044, 27979, 32467, 26524] @ asc ''...'',
     success_save =
       [25209, 37327, 39044, 27979, 23436, 25104, 65292, 32467, 26524, 24050, 20445,
        23384, 21040] @ asc '' '',
     warning_no_file = [26410, 36873, 25321, 25991, 20214],
     warning_no_file_msg =
       [35831, 36873, 25321, 19968, 20010] @ asc ''Excel''
       @ [25991, 20214, 36827, 34892, 25209, 37327, 39044, 27979, 12290],
     error_input =
       [36755, 20837, 38169, 35823] @ asc '': ''
       @ [35831, 30830, 20445, 25152, 26377, 23383, 27573, 21253, 21547, 26377, 25928,
          25968, 23383, 12290],
     error_occurred = [21457, 29983, 38169, 35823] @ asc '':'',
     success = [25104, 21151],
     error_title = [38169, 35823],
     FM_values = [(asc ''FRP'' @ [27801, 23618, 33073, 31896], 1),
       (asc ''FRP'' @ [38050, 31563, 25300, 20986], 2),
       ([28151, 20957, 22303, 21098, 20999, 30772, 22351], 3),
       (asc ''FRP'' @ [38050, 31563, 26029, 35010], 4),
       ([28151, 20957, 22303, 21128, 35010], 5)],
     FT_values = [(asc ''GFRP'', 1), (asc ''CFRP'', 2), (asc ''BFRP'', 3)],
     BS_values = [([30722, 28034, 23618], 1),
       ([32420, 32500, 21253, 35065, 30722, 28034, 23618], 2),
       ([32907, 32441], 3),
       ([32420, 32500, 21253, 35065], 4),
       ([30722, 28034, 23618, 32907, 32441], 5)] \<rparr>"

fun translations_dict :: "language \<Rightarrow> lang_table" where
  "translations_dict En = translations_en"
| "translations_dict Zh = translations_zh"

section \<open>The scaler and the model\<close>

text \<open>
  Modelled from the spec: \<open>scaler.pkl\<close> and \<open>model.pkl\<close> are serialized objects loaded
  at start-up and are not part of the source. The spec gives their interface: the
  scaler takes an N x 8 matrix to an N x 8 matrix, the model takes an N x 8 matrix to a
  vector of N numbers. They are parameters here, and either call may raise.
\<close>

record artifacts =
  scaler_transform :: "num list list \<Rightarrow> exc + num list list"
  model_predict :: "num list list \<Rightarrow> exc + num list"

text \<open>The log of the calls made to the two artifacts, with their arguments.\<close>

datatype call = ScalerTransform "num list list" | ModelPredict "num list list"

section \<open>Tables\<close>

text \<open>
  A cell of a table as pandas holds it: a number (a blank cell among numbers is the float
  NaN) or a text. \<open>sheet\<close> is what \<open>pd.read_excel(file_path, header=None)\<close> returns:
  the length of the index and the columns in order, labelled 0, 1, ... by position.
  A \<open>dataframe\<close> carries its column labels; a label maps to one column.
\<close>

datatype cell = Num num | Text str

record sheet =
  nrows :: nat
  cols :: "cell list list"

record dataframe =
  index_len :: nat
  columns :: "(str \<times> cell list) list"

section \<open>The state of the interface\<close>

datatype wstate = Normal | Disabled

text \<open>
  The text of the result label: a plain text, or a prefix with a prediction, which the
  source renders as \<open>f"{prefix}{prediction:.2f} MPa"\<close>.
\<close>

datatype display = Plain str | Prediction str num

datatype dialog = ShowWarning str str | ShowInfo str str | ShowError str str

record ui =
  current_language :: language
  result_label :: display
  selected_file :: str
  batch_button :: wstate
  browse_button :: wstate
  batch_status :: str
  progress_running :: bool
  dialogs :: "dialog list"
  files :: "(str \<times> dataframe) list"
  calls :: "call list"

section \<open>Single prediction\<close>

text \<open>
  The list \<open>variables\<close> of the source holds, for each of the 8 features in order, either
  the \<open>StringVar\<close> of a read-only combobox (the categorical features FM, FT, BS) or an
  \<open>Entry\<close>; each is modelled by the text it currently holds.
\<close>

datatype widget = StringVar str | Entry str

text \<open>The items of a combobox: \<open>[f"{desc} ({val})" for desc, val in values]\<close>.\<close>

definition format_label :: "str \<times> int \<Rightarrow> str" where
  "format_label p = fst p @ asc '' ('' @ str_int (snd p) @ asc '')''"

definition combobox_values :: "(str \<times> int) list \<Rightarrow> str list" where
  "combobox_values vals = map format_label vals"

text \<open>
  One assignment of the 8 input fields: the texts typed into the five entries and the
  positions selected in the three comboboxes.
\<close>

record form_input =
  t_text :: str
  fm_index :: nat
  ft_index :: nat
  bs_index :: nat
  d_text :: str
  la_text :: str
  fc_text :: str
  cd_text :: str

definition variables :: "language \<Rightarrow> form_input \<Rightarrow> widget list" where
  "variables cur inp =
     [Entry (t_text inp),
      StringVar (combobox_values (FM_values (translations_dict cur)) ! fm_index inp),
      StringVar (combobox_values (FT_values (translations_dict cur)) ! ft_index inp),
      StringVar (combobox_values (BS_values (translations_dict cur)) ! bs_index inp),
      Entry (d_text inp),
      Entry (la_text inp),
      Entry (fc_text inp),
      Entry (cd_text inp)]"

text \<open>
  The body of the loop of \<open>predict\<close>:
  \<open>int(var.get().split('(')[-1].strip(')'))\<close> for a \<open>StringVar\<close>, \<open>float(var.get())\<close>
  for an entry.
\<close>

fun widget_value :: "widget \<Rightarrow> exc + num" where
  "widget_value (StringVar t) =
     (case py_int (strip 41 (last (split 40 t))) of
        None \<Rightarrow> Inl (ValueError (asc ''invalid literal for int() with base 10''))
      | Some i \<Rightarrow> Inr (PyInt i))"
| "widget_value (Entry t) =
     (case py_float t of
        None \<Rightarrow> Inl (ValueError (asc ''could not convert string to float''))
      | Some v \<Rightarrow> Inr v)"

fun read_inputs :: "widget list \<Rightarrow> exc + num list" where
  "read_inputs [] = Inr []"
| "read_inputs (var # vars) =
     (case widget_value var of
        Inl e \<Rightarrow> Inl e
      | Inr v \<Rightarrow> (case read_inputs vars of Inl e \<Rightarrow> Inl e | Inr vs \<Rightarrow> Inr (v # vs)))"

text \<open>
  The single-prediction pipeline on a feature vector:
  \<open>model.predict(scaler.transform([input_values]))[0]\<close>, with the calls logged.
\<close>

definition pipeline :: "artifacts \<Rightarrow> num list \<Rightarrow> ui \<Rightarrow> (exc + num) \<times> ui" where
  "pipeline art input_values s =
     (let s1 = s\<lparr>calls := calls s @ [ScalerTransform [input_values]]\<rparr> in
      case scaler_transform art [input_values] of
        Inl e \<Rightarrow> (Inl e, s1)
      | Inr input_scaled \<Rightarrow>
          (let s2 = s1\<lparr>calls := calls s1 @ [ModelPredict input_scaled]\<rparr> in
           case model_predict art input_scaled of
             Inl e \<Rightarrow> (Inl e, s2)
           | Inr ys \<Rightarrow>
               (case ys of
                  [] \<Rightarrow> (Inl (OtherException (asc ''index 0 is out of bounds'')), s2)
                | y # _ \<Rightarrow> (Inr y, s2))))"

text \<open>The \<open>try\<close> block of \<open>predict\<close>.\<close>

definition predict_try :: "artifacts \<Rightarrow> widget list \<Rightarrow> ui \<Rightarrow> (exc + num) \<times> ui" where
  "predict_try art vars s =
     (case read_inputs vars of
        Inl e \<Rightarrow> (Inl e, s)
      | Inr input_values \<Rightarrow> pipeline art input_values s)"

text \<open>
  How a call of \<open>predict\<close> ends: with a prediction, in the handler of \<open>ValueError\<close>
  (the input error of the spec), or in the handler of any other exception.
\<close>

datatype outcome = Predicted num | InputValidationError | PredictionError str

definition predict :: "artifacts \<Rightarrow> widget list \<Rightarrow> ui \<Rightarrow> outcome \<times> ui" where
  "predict art vars s =
     (let lang = translations_dict (current_language s);
          s0 = s\<lparr>result_label := Plain (result_prefix lang)\<rparr>
      in case predict_try art vars s0 of
           (Inr prediction, s1) \<Rightarrow>
             (Predicted prediction,
              s1\<lparr>result_label := Prediction (result_prefix lang) prediction\<rparr>)
         | (Inl (ValueError m), s1) \<Rightarrow>
             (InputValidationError, s1\<lparr>result_label := Plain (error_input lang)\<rparr>)
         | (Inl (OtherException m), s1) \<Rightarrow>
             (PredictionError m,
              s1\<lparr>result_label := Plain (error_occurred lang @ asc '' '' @ m)\<rparr>))"

section \<open>Batch prediction\<close>

text \<open>
  What the batch run asks of its surroundings: the file read by \<open>pd.read_excel\<close> (a
  sheet, or an exception), the answer of the save dialog (the empty string when the
  user cancels), and whether \<open>df.to_excel\<close> raises for a path and a table.
\<close>

record env =
  read_excel :: "str \<Rightarrow> exc + sheet"
  asksaveasfilename :: str
  to_excel :: "str \<Rightarrow> dataframe \<Rightarrow> exc option"

text \<open>The texts written in \<open>run_prediction\<close> itself, chosen by \<open>current_language\<close>.\<close>

fun too_few_columns_msg :: "language \<Rightarrow> str" where
  "too_few_columns_msg Zh =
     [36873, 25321, 30340] @ asc ''Excel'' @ [25991, 20214, 24517, 39035, 33267, 23569, 26377]
     @ asc ''8'' @ [21015, 29305, 24449, 25968, 25454, 12290]"
| "too_few_columns_msg En =
     asc ''The selected Excel file must contain at least 8 feature columns.''"

fun non_numeric_msg :: "language \<Rightarrow> str" where
  "non_numeric_msg Zh =
     [25152, 26377, 29305, 24449, 21015, 24517, 39035, 20026, 25968, 20540, 22411, 12290,
      35831, 26816, 26597] @ asc ''Excel'' @ [25991, 20214, 12290]"
| "non_numeric_msg En =
     asc ''All feature columns must be numeric. Please check the Excel file.''"

fun save_cancelled_msg :: "language \<Rightarrow> str" where
  "save_cancelled_msg Zh = [20445, 23384, 25805, 20316, 24050, 21462, 28040, 12290]"
| "save_cancelled_msg En = asc ''Save operation cancelled.''"

definition predicted_label :: str where
  "predicted_label = asc ''Predicted '' @ [964] @ asc ''u (MPa)''"

subsection \<open>The operations on the table\<close>

text \<open>\<open>df.columns = df.columns.astype(str)\<close> on the sheet just read.\<close>

definition columns_astype_str :: "sheet \<Rightarrow> dataframe" where
  "columns_astype_str sh =
     \<lparr>index_len = nrows sh,
      columns = zip (map str_nat [0..<length (cols sh)]) (cols sh)\<rparr>"

definition shape1 :: "dataframe \<Rightarrow> nat" where
  "shape1 df = length (columns df)"

text \<open>
  \<open>pd.api.types.is_numeric_dtype\<close>: pandas gives a column a numeric dtype when every
  value it holds is a number, and the dtype \<open>object\<close> when it holds a text.
\<close>

fun is_number :: "cell \<Rightarrow> bool" where
  "is_number (Num v) = True"
| "is_number (Text t) = False"

definition is_numeric_dtype :: "cell list \<Rightarrow> bool" where
  "is_numeric_dtype col = list_all is_number col"

text \<open>\<open>df[col]\<close> for one label, and \<open>df[feature_columns]\<close> for a list of labels.\<close>

definition getitem :: "dataframe \<Rightarrow> str \<Rightarrow> exc + cell list" where
  "getitem df col =
     (case map_of (columns df) col of
        None \<Rightarrow> Inl (OtherException col)
      | Some c \<Rightarrow> Inr c)"

fun getitems :: "dataframe \<Rightarrow> str list \<Rightarrow> exc + (str \<times> cell list) list" where
  "getitems df [] = Inr []"
| "getitems df (l # ls) =
     (case getitem df l of
        Inl e \<Rightarrow> Inl e
      | Inr c \<Rightarrow> (case getitems df ls of Inl e \<Rightarrow> Inl e | Inr cs \<Rightarrow> Inr ((l, c) # cs)))"

text \<open>\<open>all(pd.api.types.is_numeric_dtype(df[col]) for col in feature_columns)\<close>.\<close>

fun all_numeric :: "dataframe \<Rightarrow> str list \<Rightarrow> exc + bool" where
  "all_numeric df [] = Inr True"
| "all_numeric df (col # rest) =
     (case getitem df col of
        Inl e \<Rightarrow> Inl e
      | Inr c \<Rightarrow> if is_numeric_dtype c then all_numeric df rest else Inr False)"

text \<open>
  The array that \<open>scaler.transform\<close> makes of the frame it is given: one row per index
  position, one number per column; a text cannot be converted.
\<close>

fun collect :: "(exc + 'a) list \<Rightarrow> exc + 'a list" where
  "collect [] = Inr []"
| "collect (r # rs) =
     (case r of
        Inl e \<Rightarrow> Inl e
      | Inr v \<Rightarrow> (case collect rs of Inl e \<Rightarrow> Inl e | Inr vs \<Rightarrow> Inr (v # vs)))"

definition cell_at :: "cell list \<Rightarrow> nat \<Rightarrow> exc + num" where
  "cell_at c i =
     (if i < length c then
        (case c ! i of
           Num v \<Rightarrow> Inr v
         | Text t \<Rightarrow> Inl (ValueError (asc ''could not convert string to float'')))
      else Inl (OtherException (asc ''index out of bounds'')))"

definition to_array :: "dataframe \<Rightarrow> exc + num list list" where
  "to_array df =
     collect (map (\<lambda>i. collect (map (\<lambda>lc. cell_at (snd lc) i) (columns df)))
                  [0..<index_len df])"

text \<open>
  \<open>df[label] = values\<close>: the values must be as many as the index is long; the column
  replaces the one with that label, or is appended when there is none.
\<close>

definition setitem :: "dataframe \<Rightarrow> str \<Rightarrow> num list \<Rightarrow> exc + dataframe" where
  "setitem df label vals =
     (if length vals \<noteq> index_len df
      then Inl (ValueError (asc ''Length of values does not match length of index''))
      else Inr (df\<lparr>columns := AList.update label (map Num vals) (columns df)\<rparr>))"

subsection \<open>\<open>run_prediction\<close>\<close>

text \<open>
  Reading and checking the table (from \<open>pd.read_excel\<close> to the second \<open>raise\<close>): the
  result is the table and its 8 feature columns, or the exception raised.
\<close>

definition read_features :: "env \<Rightarrow> language \<Rightarrow> str \<Rightarrow> exc + (dataframe \<times> dataframe)" where
  "read_features ev cur file_path =
     (case read_excel ev file_path of
        Inl e \<Rightarrow> Inl e
      | Inr sh \<Rightarrow>
          (let df = columns_astype_str sh in
           if shape1 df < 8 then Inl (ValueError (too_few_columns_msg cur))
           else
             (let feature_columns = take 8 (map fst (columns df)) in
              case getitems df feature_columns of
                Inl e \<Rightarrow> Inl e
              | Inr input_data \<Rightarrow>
                  (case all_numeric df feature_columns of
                     Inl e \<Rightarrow> Inl e
                   | Inr ok \<Rightarrow>
                       if \<not> ok then Inl (ValueError (non_numeric_msg cur))
                       else Inr (df, \<lparr>index_len = index_len df, columns = input_data\<rparr>)))))"

text \<open>
  Every function below returns, with its result, the list of the states of the
  interface it went through, the last one being the state it ends in.
\<close>

definition scale_and_predict ::
  "artifacts \<Rightarrow> lang_table \<Rightarrow> dataframe \<Rightarrow> ui \<Rightarrow> (exc + num list) \<times> ui list" where
  "scale_and_predict art lang input_data s =
     (let s1 = s\<lparr>batch_status := batch_status_scaling lang\<rparr> in
      case to_array input_data of
        Inl e \<Rightarrow> (Inl e, [s1])
      | Inr X \<Rightarrow>
          (let s2 = s1\<lparr>calls := calls s1 @ [ScalerTransform X]\<rparr> in
           case scaler_transform art X of
             Inl e \<Rightarrow> (Inl e, [s1, s2])
           | Inr input_scaled \<Rightarrow>
               (let s3 = s2\<lparr>batch_status := batch_status_predicting lang\<rparr>;
                    s4 = s3\<lparr>calls := calls s3 @ [ModelPredict input_scaled]\<rparr>
                in case model_predict art input_scaled of
                     Inl e \<Rightarrow> (Inl e, [s1, s2, s3, s4])
                   | Inr predictions \<Rightarrow> (Inr predictions, [s1, s2, s3, s4]))))"

datatype terminal = Saved str | SaveCancelled | Failed exc

definition save_results ::
  "env \<Rightarrow> lang_table \<Rightarrow> dataframe \<Rightarrow> ui \<Rightarrow> (exc + terminal) \<times> ui list" where
  "save_results ev lang df s =
     (let s1 = s\<lparr>batch_status := batch_status_saving lang\<rparr>;
          save_path = asksaveasfilename ev
      in if save_path \<noteq> [] then
           (case to_excel ev save_path df of
              Some e \<Rightarrow> (Inl e, [s1])
            | None \<Rightarrow>
                (let s2 = s1\<lparr>files := files s1 @ [(save_path, df)]\<rparr>;
                     s3 = s2\<lparr>dialogs := dialogs s2
                            @ [ShowInfo (success lang) (success_save lang @ save_path)]\<rparr>;
                     s4 = s3\<lparr>batch_status :=
                            (if current_language s3 = Zh then batch_status_start lang
                             else asc ''Batch prediction completed.'')\<rparr>
                 in (Inr (Saved save_path), [s1, s2, s3, s4])))
         else
           (Inr SaveCancelled,
            [s1, s1\<lparr>batch_status := save_cancelled_msg (current_language s1)\<rparr>]))"

text \<open>The \<open>try\<close> block.\<close>

definition run_try ::
  "artifacts \<Rightarrow> env \<Rightarrow> lang_table \<Rightarrow> str \<Rightarrow> ui \<Rightarrow> (exc + terminal) \<times> ui list" where
  "run_try art ev lang file_path s =
     (let s1 = s\<lparr>batch_status := batch_status_reading lang\<rparr> in
      case read_features ev (current_language s1) file_path of
        Inl e \<Rightarrow> (Inl e, [s1])
      | Inr (df, input_data) \<Rightarrow>
          (case scale_and_predict art lang input_data s1 of
             (Inl e, tr) \<Rightarrow> (Inl e, s1 # tr)
           | (Inr predictions, tr) \<Rightarrow>
               (case setitem df predicted_label predictions of
                  Inl e \<Rightarrow> (Inl e, s1 # tr)
                | Inr df' \<Rightarrow>
                    (case save_results ev lang df' (last tr) of
                       (r, tr') \<Rightarrow> (r, s1 # tr @ tr')))))"

text \<open>The \<open>except Exception\<close> clause and the \<open>finally\<close> clause.\<close>

definition error_report :: "lang_table \<Rightarrow> exc \<Rightarrow> str" where
  "error_report lang e = error_occurred lang @ asc '' '' @ exc_str e"

definition handle_error :: "lang_table \<Rightarrow> exc \<Rightarrow> ui \<Rightarrow> ui list" where
  "handle_error lang e s =
     (let s1 = s\<lparr>dialogs := dialogs s @ [ShowError (error_title lang) (error_report lang e)]\<rparr>
      in [s1, s1\<lparr>batch_status := error_report lang e\<rparr>])"

definition finally_steps :: "ui \<Rightarrow> ui list" where
  "finally_steps s =
     (let s1 = s\<lparr>progress_running := False\<rparr>;
          s2 = s1\<lparr>batch_button := Normal\<rparr>
      in [s1, s2, s2\<lparr>browse_button := Normal\<rparr>])"

text \<open>The \<open>try\<close> block with its handler: the terminal state and the states up to it.\<close>

definition run_guarded ::
  "artifacts \<Rightarrow> env \<Rightarrow> lang_table \<Rightarrow> str \<Rightarrow> ui \<Rightarrow> terminal \<times> ui list" where
  "run_guarded art ev lang file_path s =
     (case run_try art ev lang file_path s of
        (Inl e, tr) \<Rightarrow> (Failed e, tr @ handle_error lang e (last tr))
      | (Inr t, tr) \<Rightarrow> (t, tr))"

definition run_prediction ::
  "artifacts \<Rightarrow> env \<Rightarrow> lang_table \<Rightarrow> str \<Rightarrow> ui \<Rightarrow> terminal \<times> ui list" where
  "run_prediction art ev lang file_path s =
     (case run_guarded art ev lang file_path s of
        (t, tr) \<Rightarrow> (t, tr @ finally_steps (last tr)))"

subsection \<open>\<open>batch_predict\<close>\<close>

text \<open>
  The handler of the batch button. Without a selected file it warns and no run starts
  (\<open>None\<close>). Otherwise it disables the two buttons and starts \<open>run_prediction\<close>, which
  the model runs to its end.
\<close>

definition batch_predict :: "artifacts \<Rightarrow> env \<Rightarrow> ui \<Rightarrow> terminal option \<times> ui list" where
  "batch_predict art ev s =
     (let lang = translations_dict (current_language s);
          file_path = selected_file s
      in if file_path = [] then
           (None,
            [s\<lparr>dialogs := dialogs s
                 @ [ShowWarning (warning_no_file lang) (warning_no_file_msg lang)]\<rparr>])
         else
           (let s1 = s\<lparr>batch_button := Disabled\<rparr>;
                s2 = s1\<lparr>browse_button := Disabled\<rparr>;
                s3 = s2\<lparr>batch_status := batch_status_start lang\<rparr>;
                s4 = s3\<lparr>progress_running := True\<rparr>
            in case run_prediction art ev lang file_path s4 of
                 (t, tr) \<Rightarrow> (Some t, [s1, s2, s3, s4] @ tr)))"

section \<open>Notions used in the statements\<close>


text \<open>
  The frame \<open>df[feature_columns]\<close> of a sheet with at least 8 columns: its first 8
  columns under their labels.
\<close>

definition feature_frame :: "sheet \<Rightarrow> dataframe" where
  "feature_frame sh =
     \<lparr>index_len = nrows sh, columns = zip (map str_nat [0..<8]) (take 8 (cols sh))\<rparr>"

text \<open>
  The two buttons that \<open>batch_predict\<close> disables; \<open>same_controls\<close> relates two
  states with the same buttons and the same language.
\<close>

definition controls_disabled :: "ui \<Rightarrow> bool" where
  "controls_disabled st \<longleftrightarrow> batch_button st = Disabled \<and> browse_button st = Disabled"

definition controls_enabled :: "ui \<Rightarrow> bool" where
  "controls_enabled st \<longleftrightarrow> batch_button st = Normal \<and> browse_button st = Normal"

definition same_controls :: "ui \<Rightarrow> ui \<Rightarrow> bool" where
  "same_controls s st \<longleftrightarrow> batch_button st = batch_button s \<and> browse_button st = browse_button s
     \<and> current_language st = current_language s"

text \<open>
  The scaler and the model work row by row, as the spec describes them (a transform of
  a feature vector, a function from a scaled feature vector to one number): whenever a
  call on a matrix returns, the result has one row per row of the argument, and the
  call on the matrix of row \<open>i\<close> alone returns row \<open>i\<close> of that result.
\<close>

definition rowwise :: "artifacts \<Rightarrow> bool" where
  "rowwise art \<longleftrightarrow>
     (\<forall>X Y. scaler_transform art X = Inr Y \<longrightarrow>
        length Y = length X \<and> (\<forall>i<length X. scaler_transform art [X ! i] = Inr [Y ! i]))
     \<and> (\<forall>X P. model_predict art X = Inr P \<longrightarrow>
        length P = length X \<and> (\<forall>i<length X. model_predict art [X ! i] = Inr [P ! i]))"

subsection \<open>Sample data\<close>

text \<open>
  A state of the interface at start-up, a scaler that doubles every finite number, a model
  that returns the first feature of each row, and the form filled with the example of
  the spec: 25, pullout (2), GFRP (1), ribbed (3), 12, 100, 30, 1.5.
\<close>

definition example_ui :: ui where
  "example_ui = \<lparr>current_language = Zh, result_label = Plain [], selected_file = [],
     batch_button = Normal, browse_button = Normal, batch_status = [],
     progress_running = False, dialogs = [], files = [], calls = []\<rparr>"

fun double :: "num \<Rightarrow> num" where
  "double (PyInt i) = PyInt (2 * i)"
| "double (PyFloat q) = PyFloat (2 * q)"
| "double v = v"

definition example_artifacts :: artifacts where
  "example_artifacts =
     \<lparr>scaler_transform = (\<lambda>X. Inr (map (map double) X)),
      model_predict = (\<lambda>X. Inr (map (\<lambda>r. case r of [] \<Rightarrow> PyNaN | v # _ \<Rightarrow> v) X))\<rparr>"

definition example_form :: form_input where
  "example_form = \<lparr>t_text = asc ''25'', fm_index = 1, ft_index = 0, bs_index = 2,
     d_text = asc ''12'', la_text = asc ''100'', fc_text = asc ''30'',
     cd_text = asc ''1.5''\<rparr>"

text \<open>
  A scaler fitted on 7 features: \<open>transform\<close> raises the \<open>ValueError\<close> with which
  scikit-learn answers a matrix of another width.
\<close>

definition mismatched_artifacts :: artifacts where
  "mismatched_artifacts =
     \<lparr>scaler_transform = (\<lambda>X. Inl (ValueError
        (asc ''X has 8 features, but StandardScaler is expecting 7 features as input.''))),
      model_predict = (\<lambda>X. Inr (map (\<lambda>r. PyFloat 0) X))\<rparr>"

text \<open>
  A sheet of two rows and nine columns, the ninth a text; the surroundings of a batch run
  that reads it from \<open>data.xlsx\<close> and saves to \<open>predicted_data.xlsx\<close>; the state of
  the interface once that file is selected.
\<close>

definition example_sheet :: sheet where
  "example_sheet = \<lparr>nrows = 2, cols =
     [[Num (PyFloat 25), Num (PyFloat 60)],
      [Num (PyInt 2), Num (PyInt 5)],
      [Num (PyInt 1), Num (PyInt 3)],
      [Num (PyInt 3), Num (PyInt 1)],
      [Num (PyFloat 12), Num (PyFloat 16)],
      [Num (PyInt 100), Num (PyInt 80)],
      [Num (PyFloat 30), Num (PyFloat 45)],
      [Num (PyFloat (3 / 2)), Num (PyFloat 2)],
      [Text (asc ''A1''), Text (asc ''B2'')]]\<rparr>"

definition example_env :: env where
  "example_env =
     \<lparr>read_excel = (\<lambda>p. if p = asc ''data.xlsx'' then Inr example_sheet
                          else Inl (OtherException (asc ''No such file or directory''))),
      asksaveasfilename = asc ''predicted_data.xlsx'',
      to_excel = (\<lambda>p df. None)\<rparr>"

definition batch_ui :: ui where
  "batch_ui = example_ui\<lparr>selected_file := asc ''data.xlsx''\<rparr>"

text \<open>
  The same sheet cut to three columns, and the same sheet with a word in the
  failure-mode column; the surroundings that read them.
\<close>

definition narrow_sheet :: sheet where
  "narrow_sheet = example_sheet\<lparr>cols := take 3 (cols example_sheet)\<rparr>"

definition narrow_env :: env where
  "narrow_env = example_env\<lparr>read_excel := (\<lambda>p. Inr narrow_sheet)\<rparr>"

definition text_sheet :: sheet where
  "text_sheet =
     example_sheet\<lparr>cols := (cols example_sheet)[1 := [Text (asc ''pullout''), Num (PyInt 5)]]\<rparr>"

definition text_env :: env where
  "text_env = example_env\<lparr>read_excel := (\<lambda>p. Inr text_sheet)\<rparr>"



definition cancelling_env :: env where
  "cancelling_env = example_env\<lparr>asksaveasfilename := []\<rparr>"

section \<open>Single prediction: input errors\<close>

lemma widget_value_error: "widget_value w = Inl e \<Longrightarrow> \<exists>m. e = ValueError m"
  by (cases w) (auto split: option.splits)

lemma read_inputs_error: "read_inputs vars = Inl e \<Longrightarrow> \<exists>m. e = ValueError m"
proof (induction vars)
  case Nil
  then show ?case by simp
next
  case (Cons w ws)
  then show ?case
    by (auto split: sum.splits dest: widget_value_error)
qed






section \<open>Labels of the comboboxes\<close>

lemma str_nat_digits: "list_all is_digit (str_nat n)"
proof (induction n rule: str_nat.induct)
  case (1 n)
  show ?case
  proof (cases "n < 10")
    case True
    then show ?thesis by (subst str_nat.simps) (simp add: is_digit_def)
  next
    case False
    have "n mod 10 < 10" by simp
    then have "is_digit (48 + n mod 10)" unfolding is_digit_def by linarith
    with False 1 show ?thesis by (subst str_nat.simps) simp
  qed
qed

lemma str_nat_nonempty: "str_nat n \<noteq> []"
  by (subst str_nat.simps) simp

lemma digits_value_append:
  "digits_value acc (xs @ [d]) = 10 * digits_value acc xs + (d - 48)"
  by (induction xs arbitrary: acc) simp_all

lemma digits_value_str_nat: "digits_value 0 (str_nat n) = n"
proof (induction n rule: str_nat.induct)
  case (1 n)
  show ?case
  proof (cases "n < 10")
    case True
    then show ?thesis by (subst str_nat.simps) simp
  next
    case False
    with 1 have "digits_value 0 (str_nat (n div 10)) = n div 10" by simp
    with False show ?thesis
      by (subst str_nat.simps) (simp add: digits_value_append)
  qed
qed

lemma str_nat_inj: "str_nat m = str_nat n \<Longrightarrow> m = n"
  by (metis digits_value_str_nat)

lemma digit_facts: "is_digit c \<Longrightarrow> \<not> is_space c \<and> c \<noteq> 95 \<and> c \<noteq> 45 \<and> c \<noteq> 43 \<and> c \<noteq> 41 \<and> c \<noteq> 40"
  by (auto simp: is_digit_def is_space_def)

lemma strip_space_digits:
  assumes "list_all is_digit s" shows "strip_space s = s"
proof (cases s rule: rev_cases)
  case Nil
  then show ?thesis by (simp add: strip_space_def)
next
  case (snoc ys y)
  with assms have y: "\<not> is_space y" by (simp add: digit_facts)
  have "dropWhile is_space s = s"
  proof (cases s)
    case Nil
    then show ?thesis by simp
  next
    case (Cons a as)
    with assms have "\<not> is_space a" by (simp add: digit_facts)
    with Cons show ?thesis by simp
  qed
  with snoc y show ?thesis by (simp add: strip_space_def)
qed

lemma drop_underscores_digits:
  "list_all is_digit s \<Longrightarrow> prev \<noteq> 95 \<Longrightarrow> drop_underscores prev s = Some s"
  by (induction s arbitrary: prev) (auto simp: digit_facts)

lemma take_sign_digits:
  "list_all is_digit s \<Longrightarrow> take_sign s = (False, s)"
  by (cases s) (auto simp: digit_facts)

lemma py_int_str_nat: "py_int (str_nat n) = Some (int n)"
  using str_nat_digits [of n] str_nat_nonempty [of n]
  by (simp add: py_int_def strip_space_digits drop_underscores_digits take_sign_digits
      digits_value_str_nat)

lemma split_nonempty: "split c s \<noteq> []"
  by (induction s) (auto split: list.splits)

lemma split_append: "split c (xs @ c # ys) = split c xs @ split c ys"
proof (induction xs)
  case Nil
  then show ?case by simp
next
  case (Cons x xs)
  obtain seg segs where "split c xs = seg # segs"
    using split_nonempty [of c xs] by (cases "split c xs") auto
  with Cons show ?case by simp
qed

lemma last_split_append: "last (split c (xs @ c # ys)) = last (split c ys)"
  by (simp add: split_append split_nonempty)

lemma split_none: "c \<notin> set s \<Longrightarrow> split c s = [s]"
  by (induction s) auto

lemma strip_digits_paren:
  assumes "list_all is_digit s" and "s \<noteq> []"
  shows "strip 41 (s @ [41]) = s"
proof -
  from assms obtain a as where s: "s = a # as" by (cases s) auto
  from assms obtain bs b where r: "s = bs @ [b]" by (cases s rule: rev_cases) auto
  from s assms have a: "a \<noteq> 41" by (simp add: digit_facts)
  from r assms have b: "b \<noteq> 41" by (simp add: digit_facts)
  from a s have "dropWhile (\<lambda>x. x = 41) (s @ [41]) = s @ [41]" by simp
  then show ?thesis using b r by (simp add: strip_def)
qed

lemma label_code:
  "widget_value (StringVar (format_label (d, int n))) = Inr (PyInt (int n))"
proof -
  have dig: "list_all is_digit (str_nat n)" by (rule str_nat_digits)
  then have "40 \<notin> set (str_nat n @ [41])"
    by (auto simp: list_all_iff dest: digit_facts)
  then have "last (split 40 (format_label (d, int n))) = str_nat n @ [41]"
    using last_split_append [of 40 "d @ [32]" "str_nat n @ [41]"]
    by (simp add: format_label_def asc_def str_int_def split_none)
  then show ?thesis
    by (simp add: strip_digits_paren [OF dig str_nat_nonempty] py_int_str_nat)
qed

section \<open>Single prediction: the language and the handlers\<close>

lemma less5: "i < (5::nat) \<Longrightarrow> i = 0 \<or> i = 1 \<or> i = 2 \<or> i = 3 \<or> i = 4"
  by arith
lemma less3: "i < (3::nat) \<Longrightarrow> i = 0 \<or> i = 1 \<or> i = 2"
  by arith

lemma fm_item:
  assumes "i < 5"
  shows "\<exists>d. combobox_values (FM_values (translations_dict l)) ! i = format_label (d, int (Suc i))"
  using less5 [OF assms]
  by (cases l) (auto simp: combobox_values_def translations_en_def translations_zh_def)

lemma ft_item:
  assumes "i < 3"
  shows "\<exists>d. combobox_values (FT_values (translations_dict l)) ! i = format_label (d, int (Suc i))"
  using less3 [OF assms]
  by (cases l) (auto simp: combobox_values_def translations_en_def translations_zh_def)

lemma bs_item:
  assumes "i < 5"
  shows "\<exists>d. combobox_values (BS_values (translations_dict l)) ! i = format_label (d, int (Suc i))"
  using less5 [OF assms]
  by (cases l) (auto simp: combobox_values_def translations_en_def translations_zh_def)

lemma fm_value:
  "i < 5 \<Longrightarrow> widget_value (StringVar (combobox_values (FM_values (translations_dict l)) ! i))
     = Inr (PyInt (int (Suc i)))"
  using fm_item [of i l] label_code by (metis)

lemma ft_value:
  "i < 3 \<Longrightarrow> widget_value (StringVar (combobox_values (FT_values (translations_dict l)) ! i))
     = Inr (PyInt (int (Suc i)))"
  using ft_item [of i l] label_code by (metis)

lemma bs_value:
  "i < 5 \<Longrightarrow> widget_value (StringVar (combobox_values (BS_values (translations_dict l)) ! i))
     = Inr (PyInt (int (Suc i)))"
  using bs_item [of i l] label_code by (metis)

lemma read_inputs_cong:
  "map widget_value vs = map widget_value vs' \<Longrightarrow> read_inputs vs = read_inputs vs'"
proof (induction vs arbitrary: vs')
  case Nil
  then show ?case by simp
next
  case (Cons w ws)
  then obtain w' ws' where v: "vs' = w' # ws'" by (cases vs') auto
  with Cons.prems have hd: "widget_value w = widget_value w'"
    and tl: "map widget_value ws = map widget_value ws'" by simp_all
  have "read_inputs ws = read_inputs ws'" using tl by (rule Cons.IH)
  with hd v show ?case by (simp del: widget_value.simps split: sum.splits)
qed

lemma read_inputs_language:
  assumes "fm_index inp < 5" and "ft_index inp < 3" and "bs_index inp < 5"
  shows "read_inputs (variables En inp) = read_inputs (variables Zh inp)"
proof (rule read_inputs_cong)
  show "map widget_value (variables En inp) = map widget_value (variables Zh inp)"
    unfolding variables_def
    using fm_value [OF assms(1), of En] ft_value [OF assms(2), of En]
      bs_value [OF assms(3), of En] fm_value [OF assms(1), of Zh]
      ft_value [OF assms(2), of Zh] bs_value [OF assms(3), of Zh]
    by (simp del: widget_value.simps(1))
qed

lemma pipeline_result: "fst (pipeline art vs s) = fst (pipeline art vs s')"
  by (simp add: pipeline_def Let_def split: sum.splits list.splits)

lemma pipeline_calls:
  "calls s = calls s' \<Longrightarrow> calls (snd (pipeline art vs s)) = calls (snd (pipeline art vs s'))"
  by (simp add: pipeline_def Let_def split: sum.splits list.splits)

lemma predict_outcome:
  "fst (predict art vars s) =
     (case read_inputs vars of
        Inl e \<Rightarrow> InputValidationError
      | Inr vs \<Rightarrow>
          (case fst (pipeline art vs s) of
             Inr y \<Rightarrow> Predicted y
           | Inl (ValueError m) \<Rightarrow> InputValidationError
           | Inl (OtherException m) \<Rightarrow> PredictionError m))"
proof (cases "read_inputs vars")
  case (Inl e)
  then obtain m where "e = ValueError m" using read_inputs_error by blast
  with Inl show ?thesis by (simp add: predict_def predict_try_def Let_def)
next
  case (Inr vs)
  have "fst (pipeline art vs (s\<lparr>result_label := Plain (result_prefix (translations_dict (current_language s)))\<rparr>))
        = fst (pipeline art vs s)" by (rule pipeline_result)
  with Inr show ?thesis
    by (auto simp: predict_def predict_try_def Let_def split: prod.splits sum.splits exc.splits)
qed

lemma predict_calls:
  "calls (snd (predict art vars s)) =
     (case read_inputs vars of
        Inl e \<Rightarrow> calls s
      | Inr vs \<Rightarrow> calls (snd (pipeline art vs s)))"
proof (cases "read_inputs vars")
  case (Inl e)
  then show ?thesis
    by (auto simp: predict_def predict_try_def Let_def split: exc.splits)
next
  case (Inr vs)
  have "calls (snd (pipeline art vs (s\<lparr>result_label := Plain (result_prefix (translations_dict (current_language s)))\<rparr>)))
        = calls (snd (pipeline art vs s))" by (rule pipeline_calls) simp
  with Inr show ?thesis
    by (auto simp: predict_def predict_try_def Let_def split: prod.splits sum.splits exc.splits)
qed

text \<open>
  C10. For a fixed assignment of the 8 fields (five texts and three selected positions)
  the values read from the form, the outcome of \<open>predict\<close> with its prediction, and
  the calls made to the scaler and the model are the same under both languages: the
  item of a combobox at a position carries the same code in both tables.
\<close>

theorem language_independent_prediction:
  assumes "fm_index inp < 5" and "ft_index inp < 3" and "bs_index inp < 5"
  shows "read_inputs (variables En inp) = read_inputs (variables Zh inp)
         \<and> fst (predict art (variables En inp) (s\<lparr>current_language := En\<rparr>))
           = fst (predict art (variables Zh inp) (s\<lparr>current_language := Zh\<rparr>))
         \<and> calls (snd (predict art (variables En inp) (s\<lparr>current_language := En\<rparr>)))
           = calls (snd (predict art (variables Zh inp) (s\<lparr>current_language := Zh\<rparr>)))"
proof -
  have r: "read_inputs (variables En inp) = read_inputs (variables Zh inp)"
    using assms by (rule read_inputs_language)
  have p: "\<And>vs. fst (pipeline art vs (s\<lparr>current_language := En\<rparr>))
               = fst (pipeline art vs (s\<lparr>current_language := Zh\<rparr>))"
    by (rule pipeline_result)
  have c: "\<And>vs. calls (snd (pipeline art vs (s\<lparr>current_language := En\<rparr>)))
               = calls (snd (pipeline art vs (s\<lparr>current_language := Zh\<rparr>)))"
    by (rule pipeline_calls) simp
  show ?thesis
    by (simp add: predict_outcome predict_calls r p c split: sum.splits)
qed

lemma example_inputs:
  "read_inputs (variables l example_form) =
     Inr [PyFloat 25, PyInt 2, PyInt 1, PyInt 3, PyFloat 12, PyFloat 100, PyFloat 30,
          PyFloat (3 / 2)]"
proof -
  have e: "py_float (asc ''25'') = Some (PyFloat 25)" "py_float (asc ''12'') = Some (PyFloat 12)"
    "py_float (asc ''100'') = Some (PyFloat 100)" "py_float (asc ''30'') = Some (PyFloat 30)"
    "py_float (asc ''1.5'') = Some (PyFloat (3 / 2))"
    by (simp_all add: py_float_def asc_def strip_space_def is_space_def is_digit_def
        read_decimal_def read_exponent_def scale10_def lower_def)
  have "fm_index example_form < 5" "ft_index example_form < 3" "bs_index example_form < 5"
    by (simp_all add: example_form_def)
  then show ?thesis
    unfolding variables_def
    using fm_value [of "fm_index example_form" l] ft_value [of "ft_index example_form" l]
      bs_value [of "bs_index example_form" l]
    by (simp add: e example_form_def del: widget_value.simps(1) translations_dict.simps)
qed

text \<open>The form of the example: under both languages the prediction is 50.\<close>

theorem language_independent_prediction_witness:
  "fm_index example_form < 5 \<and> ft_index example_form < 3 \<and> bs_index example_form < 5
   \<and> read_inputs (variables En example_form) = read_inputs (variables Zh example_form)
   \<and> fst (predict example_artifacts (variables En example_form) (example_ui\<lparr>current_language := En\<rparr>))
       = Predicted (PyFloat 50)
   \<and> fst (predict example_artifacts (variables Zh example_form) (example_ui\<lparr>current_language := Zh\<rparr>))
       = Predicted (PyFloat 50)"
proof -
  have h: "fm_index example_form < 5" "ft_index example_form < 3" "bs_index example_form < 5"
    by (simp_all add: example_form_def)
  have z: "fst (predict example_artifacts (variables Zh example_form) (example_ui\<lparr>current_language := Zh\<rparr>))
       = Predicted (PyFloat 50)"
    by (simp add: predict_outcome example_inputs pipeline_def example_artifacts_def)
  show ?thesis
    using h z language_independent_prediction [OF h, of example_artifacts example_ui]
    by simp
qed

text \<open>
  A failure of the scaler or of the model with an exception other than \<open>ValueError\<close>
  ends in the second handler, with the text of the exception.
\<close>

lemma other_exception_is_prediction_error:
  assumes "read_inputs vars = Inr vs"
    and "fst (pipeline art vs s) = Inl (OtherException m)"
  shows "fst (predict art vars s) = PredictionError m"
  using assms by (simp add: predict_outcome)

text \<open>
  C2. The form of the example holds 8 valid values, and the scaler raises a
  \<open>ValueError\<close> for a width it was not fitted on. The \<open>try\<close> block of \<open>predict\<close> spans
  the call of the scaler, so this failure of the scaler ends in the handler written for
  the input error and the label shows the text of the input error.
\<close>

theorem scaler_value_error_reported_as_input_error:
  "read_inputs (variables En example_form) =
     Inr [PyFloat 25, PyInt 2, PyInt 1, PyInt 3, PyFloat 12, PyFloat 100, PyFloat 30,
          PyFloat (3 / 2)]
   \<and> fst (predict mismatched_artifacts (variables En example_form)
            (example_ui\<lparr>current_language := En\<rparr>)) = InputValidationError
   \<and> result_label (snd (predict mismatched_artifacts (variables En example_form)
            (example_ui\<lparr>current_language := En\<rparr>)))
       = Plain (asc ''Input Error: Please ensure all fields contain valid numbers.'')"
  by (simp add: example_inputs predict_def predict_try_def pipeline_def mismatched_artifacts_def
      translations_en_def)

section \<open>Reading and checking the table\<close>

lemma labels_distinct: "distinct (map str_nat [0..<n])"
  by (simp add: distinct_map inj_on_def) (metis str_nat_inj)

lemma frame_labels:
  "map fst (columns (columns_astype_str sh)) = map str_nat [0..<length (cols sh)]"
  by (simp add: columns_astype_str_def)

lemma frame_index: "index_len (columns_astype_str sh) = nrows sh"
  by (simp add: columns_astype_str_def)

lemma frame_shape: "shape1 (columns_astype_str sh) = length (cols sh)"
  by (simp add: shape1_def columns_astype_str_def)

lemma getitem_label:
  assumes "j < length (cols sh)"
  shows "getitem (columns_astype_str sh) (str_nat j) = Inr (cols sh ! j)"
proof -
  have "map_of (zip (map str_nat [0..<length (cols sh)]) (cols sh))
          (map str_nat [0..<length (cols sh)] ! j) = Some (cols sh ! j)"
    using assms by (intro map_of_zip_nth) (simp_all add: labels_distinct)
  with assms show ?thesis
    by (simp add: getitem_def columns_astype_str_def)
qed

lemma getitems_known:
  "(\<And>l. l \<in> set ls \<Longrightarrow> getitem df l = Inr (f l)) \<Longrightarrow>
   getitems df ls = Inr (map (\<lambda>l. (l, f l)) ls)"
  by (induction ls) simp_all

lemma all_numeric_known:
  "(\<And>l. l \<in> set ls \<Longrightarrow> getitem df l = Inr (f l)) \<Longrightarrow>
   all_numeric df ls = Inr (list_all (\<lambda>l. is_numeric_dtype (f l)) ls)"
  by (induction ls) simp_all

lemma feature_labels:
  assumes "8 \<le> length (cols sh)"
  shows "take 8 (map fst (columns (columns_astype_str sh))) = map str_nat [0..<8]"
  using assms by (simp add: frame_labels take_map min_def)

lemma read_features_result:
  assumes "read_excel ev p = Inr sh"
  shows "read_features ev cur p =
     (if length (cols sh) < 8 then Inl (ValueError (too_few_columns_msg cur))
      else if \<not> list_all is_numeric_dtype (take 8 (cols sh))
        then Inl (ValueError (non_numeric_msg cur))
      else Inr (columns_astype_str sh, feature_frame sh))"
proof (cases "length (cols sh) < 8")
  case True
  with assms show ?thesis by (simp add: read_features_def frame_shape)
next
  case False
  then have n: "8 \<le> length (cols sh)" by simp
  let ?df = "columns_astype_str sh"
  let ?f = "\<lambda>l. cols sh ! digits_value 0 l"
  have g: "\<And>l. l \<in> set (map str_nat [0..<8]) \<Longrightarrow> getitem ?df l = Inr (?f l)"
    using n by (auto simp: digits_value_str_nat getitem_label)
  have items: "getitems ?df (map str_nat [0..<8]) = Inr (map (\<lambda>l. (l, ?f l)) (map str_nat [0..<8]))"
    using g by (rule getitems_known)
  have allnum: "all_numeric ?df (map str_nat [0..<8])
      = Inr (list_all (\<lambda>l. is_numeric_dtype (?f l)) (map str_nat [0..<8]))"
    using g by (rule all_numeric_known)
  have t: "map (\<lambda>j. cols sh ! j) [0..<8] = take 8 (cols sh)"
    using n by (intro nth_equalityI) simp_all
  have m: "map (\<lambda>l. (l, ?f l)) (map str_nat [0..<8]) = zip (map str_nat [0..<8]) (take 8 (cols sh))"
    unfolding t [symmetric]
    by (simp add: zip_map_map digits_value_str_nat comp_def zip_same_conv_map del: upt.simps)
  have a: "list_all (\<lambda>l. is_numeric_dtype (?f l)) (map str_nat [0..<8])
       = list_all is_numeric_dtype (take 8 (cols sh))"
    unfolding t [symmetric]
    by (simp add: list_all_iff digits_value_str_nat del: upt.simps)
  have items': "getitems ?df (map str_nat [0..<8]) = Inr (zip (map str_nat [0..<8]) (take 8 (cols sh)))"
    unfolding m [symmetric] by (rule items)
  have allnum': "all_numeric ?df (map str_nat [0..<8]) = Inr (list_all is_numeric_dtype (take 8 (cols sh)))"
    unfolding a [symmetric] by (rule allnum)
  show ?thesis
    using assms False
    by (simp add: read_features_def frame_shape feature_labels [OF n] items' allnum'
        feature_frame_def frame_index Let_def del: upt.simps)
qed

section \<open>The states of a batch run\<close>

lemma scale_and_predict_trace:
  "snd (scale_and_predict art lang d s) \<noteq> []
   \<and> (\<forall>st\<in>set (snd (scale_and_predict art lang d s)). same_controls s st
        \<and> files st = files s \<and> dialogs st = dialogs s)"
  by (simp add: scale_and_predict_def same_controls_def Let_def split: sum.splits)

lemma save_results_trace:
  "snd (save_results ev lang d s) \<noteq> []
   \<and> (\<forall>st\<in>set (snd (save_results ev lang d s)). same_controls s st \<and> calls st = calls s)"
  by (simp add: save_results_def same_controls_def Let_def split: option.splits)

lemma same_controls_trans: "same_controls a b \<Longrightarrow> same_controls b c \<Longrightarrow> same_controls a c"
  by (simp add: same_controls_def)

lemma run_try_trace:
  "snd (run_try art ev lang p s) \<noteq> []
   \<and> (\<forall>st\<in>set (snd (run_try art ev lang p s)). same_controls s st)"
proof -
  let ?s1 = "s\<lparr>batch_status := batch_status_reading lang\<rparr>"
  have s1: "same_controls s ?s1" by (simp add: same_controls_def)
  show ?thesis
  proof (cases "read_features ev (current_language ?s1) p")
    case (Inl e)
    with s1 show ?thesis by (simp add: run_try_def Let_def)
  next
    case (Inr r)
    obtain df d where r: "r = (df, d)" by (cases r)
    obtain res tr where sp: "scale_and_predict art lang d ?s1 = (res, tr)"
      by (cases "scale_and_predict art lang d ?s1")
    from scale_and_predict_trace [of art lang d ?s1] sp
    have tr: "tr \<noteq> []" "\<forall>st\<in>set tr. same_controls ?s1 st" by simp_all
    then have l: "same_controls ?s1 (last tr)" by simp
    have trs: "\<forall>st\<in>set tr. same_controls s st"
      using tr(2) s1 same_controls_trans by blast
    show ?thesis
    proof (cases res)
      case (Inl e)
      with Inr r sp s1 trs show ?thesis by (simp add: run_try_def Let_def)
    next
      case preds: (Inr preds)
      show ?thesis
      proof (cases "setitem df predicted_label preds")
        case (Inl e)
        with Inr r sp s1 trs preds show ?thesis by (simp add: run_try_def Let_def)
      next
        case df': (Inr df')
        obtain r2 tr2 where sv: "save_results ev lang df' (last tr) = (r2, tr2)"
          by (cases "save_results ev lang df' (last tr)")
        from save_results_trace [of ev lang df' "last tr"] sv
        have "\<forall>st\<in>set tr2. same_controls (last tr) st" by simp
        then have "\<forall>st\<in>set tr2. same_controls s st"
          using l s1 same_controls_trans by blast
        with Inr r sp s1 trs preds df' sv show ?thesis
          by (auto simp: run_try_def Let_def)
      qed
    qed
  qed
qed

lemma handle_error_trace:
  "\<forall>st\<in>set (handle_error lang e s). same_controls s st"
  by (simp add: handle_error_def same_controls_def Let_def)

lemma run_guarded_trace:
  "snd (run_guarded art ev lang p s) \<noteq> []
   \<and> (\<forall>st\<in>set (snd (run_guarded art ev lang p s)). same_controls s st)"
proof -
  obtain r tr where rt: "run_try art ev lang p s = (r, tr)" by (cases "run_try art ev lang p s")
  from run_try_trace [of art ev lang p s] rt
  have tr: "tr \<noteq> []" "\<forall>st\<in>set tr. same_controls s st" by simp_all
  then have "same_controls s (last tr)" by simp
  then have "\<And>e. \<forall>st\<in>set (handle_error lang e (last tr)). same_controls s st"
    using handle_error_trace same_controls_trans by blast
  with rt tr show ?thesis
    by (cases r) (auto simp: run_guarded_def)
qed

text \<open>
  C8. A batch run that starts (a file is selected) goes through the states
  \<open>during\<close> and then through its \<open>finally\<close> clause. After the first statement of
  \<open>batch_predict\<close> has disabled the batch button, both buttons are disabled in every
  state up to the \<open>finally\<close> clause, whatever the terminal state \<open>t\<close> is (saved,
  save cancelled, failed), and the state the \<open>finally\<close> clause ends in has both enabled.
\<close>

theorem controls_disabled_during_run:
  assumes "selected_file s \<noteq> []"
  shows "\<exists>t during.
           batch_predict art ev s =
             (Some t, s\<lparr>batch_button := Disabled\<rparr> # during @ finally_steps (last during))
           \<and> during \<noteq> []
           \<and> (\<forall>st\<in>set during. controls_disabled st)
           \<and> controls_enabled (last (finally_steps (last during)))"
proof -
  let ?lang = "translations_dict (current_language s)"
  let ?s1 = "s\<lparr>batch_button := Disabled\<rparr>"
  let ?s2 = "?s1\<lparr>browse_button := Disabled\<rparr>"
  let ?s3 = "?s2\<lparr>batch_status := batch_status_start ?lang\<rparr>"
  let ?s4 = "?s3\<lparr>progress_running := True\<rparr>"
  obtain t tr where g: "run_guarded art ev ?lang (selected_file s) ?s4 = (t, tr)"
    by (cases "run_guarded art ev ?lang (selected_file s) ?s4")
  from run_guarded_trace [of art ev ?lang "selected_file s" ?s4] g
  have tr: "tr \<noteq> []" "\<forall>st\<in>set tr. same_controls ?s4 st" by simp_all
  then have d: "\<forall>st\<in>set tr. controls_disabled st"
    by (simp add: same_controls_def controls_disabled_def)
  let ?during = "[?s2, ?s3, ?s4] @ tr"
  have "batch_predict art ev s = (Some t, ?s1 # ?during @ finally_steps (last ?during))"
    using assms g tr(1) by (simp add: batch_predict_def run_prediction_def Let_def)
  moreover have "\<forall>st\<in>set ?during. controls_disabled st"
    using d by (simp add: controls_disabled_def)
  moreover have "controls_enabled (last (finally_steps (last ?during)))"
    by (simp add: finally_steps_def controls_enabled_def Let_def)
  ultimately show ?thesis by blast
qed

lemma batch_ui_file: "selected_file batch_ui = asc ''data.xlsx'' \<and> selected_file batch_ui \<noteq> []"
proof -
  have "selected_file batch_ui = asc ''data.xlsx''"
    by (simp add: batch_ui_def)
  moreover have "asc ''data.xlsx'' \<noteq> []"
    by (simp add: asc_def)
  ultimately show ?thesis by simp
qed

text \<open>The run of the example.\<close>

theorem controls_disabled_during_run_witness:
  "selected_file batch_ui \<noteq> []
   \<and> (\<exists>t during.
         batch_predict example_artifacts example_env batch_ui =
           (Some t, batch_ui\<lparr>batch_button := Disabled\<rparr> # during @ finally_steps (last during))
         \<and> during \<noteq> []
         \<and> (\<forall>st\<in>set during. controls_disabled st)
         \<and> controls_enabled (last (finally_steps (last during))))"
proof -
  have f: "selected_file batch_ui \<noteq> []"
    by (rule conjunct2 [OF batch_ui_file])
  show ?thesis
    using f controls_disabled_during_run [OF f, of example_artifacts example_env] by simp
qed

section \<open>Tables rejected before any computation\<close>

lemma batch_predict_rejected:
  assumes "selected_file s \<noteq> []"
    and "read_features ev (current_language s) (selected_file s) = Inl e"
  shows "fst (batch_predict art ev s) = Some (Failed e)
    \<and> (\<forall>st\<in>set (snd (batch_predict art ev s)). calls st = calls s \<and> files st = files s)
    \<and> batch_status (last (snd (batch_predict art ev s)))
        = error_report (translations_dict (current_language s)) e
    \<and> dialogs (last (snd (batch_predict art ev s)))
        = dialogs s @ [ShowError (error_title (translations_dict (current_language s)))
                         (error_report (translations_dict (current_language s)) e)]"
  using assms
  by (simp add: batch_predict_def run_prediction_def run_guarded_def run_try_def
      handle_error_def finally_steps_def Let_def)

lemma text_not_numeric:
  assumes "8 \<le> length cs" and "j < 8" and "Text t \<in> set (cs ! j)"
  shows "\<not> list_all is_numeric_dtype (take 8 cs)"
proof -
  from assms have "cs ! j \<in> set (take 8 cs)"
    by (metis (no_types, lifting) in_set_conv_nth length_take min.absorb2 nth_take)
  moreover from assms(3) have "\<not> is_numeric_dtype (cs ! j)"
    by (auto simp: is_numeric_dtype_def list_all_iff intro!: bexI [of _ "Text t"])
  ultimately show ?thesis by (auto simp: list_all_iff)
qed

text \<open>
  C4. When the table read has fewer than 8 columns, the batch run fails with the
  "at least 8 feature columns" diagnostic, which is shown in the error dialog and in the
  status; in no state of the run has the scaler or the model been called, and no file
  has been written.
\<close>

theorem too_few_columns_rejected:
  assumes "selected_file s \<noteq> []"
    and "read_excel ev (selected_file s) = Inr sh"
    and "length (cols sh) < 8"
  shows "fst (batch_predict art ev s)
           = Some (Failed (ValueError (too_few_columns_msg (current_language s))))
    \<and> (\<forall>st\<in>set (snd (batch_predict art ev s)). calls st = calls s \<and> files st = files s)
    \<and> batch_status (last (snd (batch_predict art ev s)))
        = error_report (translations_dict (current_language s))
            (ValueError (too_few_columns_msg (current_language s)))
    \<and> dialogs (last (snd (batch_predict art ev s)))
        = dialogs s @ [ShowError (error_title (translations_dict (current_language s)))
             (error_report (translations_dict (current_language s))
                (ValueError (too_few_columns_msg (current_language s))))]"
proof -
  have "read_features ev (current_language s) (selected_file s)
          = Inl (ValueError (too_few_columns_msg (current_language s)))"
    using assms(2,3) by (simp add: read_features_result)
  with assms(1) show ?thesis by (rule batch_predict_rejected)
qed

text \<open>
  C5. When the table read has a text in one of its first 8 columns, the batch run
  fails with the "all feature columns must be numeric" diagnostic, shown in the error
  dialog and in the status; in no state of the run has the scaler or the model been
  called, and no file has been written.
\<close>

theorem non_numeric_column_rejected:
  assumes "selected_file s \<noteq> []"
    and "read_excel ev (selected_file s) = Inr sh"
    and "8 \<le> length (cols sh)"
    and "j < 8"
    and "Text t \<in> set (cols sh ! j)"
  shows "fst (batch_predict art ev s)
           = Some (Failed (ValueError (non_numeric_msg (current_language s))))
    \<and> (\<forall>st\<in>set (snd (batch_predict art ev s)). calls st = calls s \<and> files st = files s)
    \<and> batch_status (last (snd (batch_predict art ev s)))
        = error_report (translations_dict (current_language s))
            (ValueError (non_numeric_msg (current_language s)))
    \<and> dialogs (last (snd (batch_predict art ev s)))
        = dialogs s @ [ShowError (error_title (translations_dict (current_language s)))
             (error_report (translations_dict (current_language s))
                (ValueError (non_numeric_msg (current_language s))))]"
proof -
  have "\<not> list_all is_numeric_dtype (take 8 (cols sh))"
    using assms(3-5) by (rule text_not_numeric)
  with assms(2,3) have "read_features ev (current_language s) (selected_file s)
          = Inl (ValueError (non_numeric_msg (current_language s)))"
    by (simp add: read_features_result)
  with assms(1) show ?thesis by (rule batch_predict_rejected)
qed

lemma narrow_env_read: "read_excel narrow_env (selected_file batch_ui) = Inr narrow_sheet"
  by (simp add: narrow_env_def)

lemma text_env_read: "read_excel text_env (selected_file batch_ui) = Inr text_sheet"
  by (simp add: text_env_def)

text \<open>The sheet of the example cut to its first three columns, read under Chinese.\<close>

theorem too_few_columns_rejected_witness:
  "selected_file batch_ui \<noteq> []
   \<and> read_excel narrow_env (selected_file batch_ui) = Inr narrow_sheet
   \<and> length (cols narrow_sheet) < 8
   \<and> fst (batch_predict example_artifacts narrow_env batch_ui)
       = Some (Failed (ValueError (too_few_columns_msg Zh)))
   \<and> list_all (\<lambda>st. calls st = [] \<and> files st = [])
         (snd (batch_predict example_artifacts narrow_env batch_ui))"
proof -
  have f: "selected_file batch_ui \<noteq> []"
    by (rule conjunct2 [OF batch_ui_file])
  have n: "length (cols narrow_sheet) < 8"
    by (simp add: narrow_sheet_def example_sheet_def)
  have c: "current_language batch_ui = Zh" "calls batch_ui = []" "files batch_ui = []"
    by (simp_all add: batch_ui_def example_ui_def)
  show ?thesis
    using f n narrow_env_read
      too_few_columns_rejected [OF f narrow_env_read n, of example_artifacts]
    by (simp add: c list_all_iff)
qed

text \<open>The sheet of the example with a word in place of a failure-mode code.\<close>

theorem non_numeric_column_rejected_witness:
  "selected_file batch_ui \<noteq> []
   \<and> read_excel text_env (selected_file batch_ui) = Inr text_sheet
   \<and> 8 \<le> length (cols text_sheet) \<and> (1::nat) < 8
   \<and> Text (asc ''pullout'') \<in> set (cols text_sheet ! 1)
   \<and> fst (batch_predict example_artifacts text_env batch_ui)
       = Some (Failed (ValueError (non_numeric_msg Zh)))
   \<and> list_all (\<lambda>st. calls st = [] \<and> files st = [])
         (snd (batch_predict example_artifacts text_env batch_ui))"
proof -
  have f: "selected_file batch_ui \<noteq> []"
    by (rule conjunct2 [OF batch_ui_file])
  have n: "8 \<le> length (cols text_sheet)"
    by (simp add: text_sheet_def example_sheet_def)
  have j: "(1::nat) < 8"
    by simp
  have t: "Text (asc ''pullout'') \<in> set (cols text_sheet ! 1)"
    by (simp add: text_sheet_def example_sheet_def)
  have c: "current_language batch_ui = Zh" "calls batch_ui = []" "files batch_ui = []"
    by (simp_all add: batch_ui_def example_ui_def)
  show ?thesis
    using f n t text_env_read
      non_numeric_column_rejected [OF f text_env_read n j t, of example_artifacts]
    by (simp add: c list_all_iff)
qed

section \<open>The array handed to the scaler and the column appended\<close>

lemma collect_Inr_iff: "collect rs = Inr vs \<longleftrightarrow> rs = map Inr vs"
proof (induction rs arbitrary: vs)
  case Nil
  then show ?case by auto
next
  case (Cons r rs)
  show ?case
  proof (cases r)
    case (Inl e)
    then show ?thesis by (cases vs) auto
  next
    case (Inr v)
    show ?thesis
    proof (cases "collect rs")
      case (Inl e)
      with Cons [of "tl vs"] Inr show ?thesis by (cases vs) auto
    next
      case r: (Inr ws)
      with Cons [of ws] have "rs = map Inr ws" by simp
      with Inr r Cons show ?thesis by (cases vs) auto
    qed
  qed
qed

lemma cell_at_Inr: "cell_at c i = Inr v \<longleftrightarrow> i < length c \<and> c ! i = Num v"
  by (auto simp: cell_at_def split: cell.splits)

lemma to_array_rows:
  assumes "to_array df = Inr X"
  shows "length X = index_len df"
    and "i < index_len df \<Longrightarrow>
           map (\<lambda>lc. cell_at (snd lc) i) (columns df) = map Inr (X ! i)"
proof -
  from assms have m: "map (\<lambda>i. collect (map (\<lambda>lc. cell_at (snd lc) i) (columns df)))
      [0..<index_len df] = map Inr X"
    by (simp add: to_array_def collect_Inr_iff)
  from map_eq_imp_length_eq [OF m] show l: "length X = index_len df" by simp
  assume i: "i < index_len df"
  have "map (\<lambda>i. collect (map (\<lambda>lc. cell_at (snd lc) i) (columns df)))
      [0..<index_len df] ! i = map Inr X ! i" by (simp only: m)
  with i l have "collect (map (\<lambda>lc. cell_at (snd lc) i) (columns df)) = Inr (X ! i)"
    by simp
  then show "map (\<lambda>lc. cell_at (snd lc) i) (columns df) = map Inr (X ! i)"
    by (simp add: collect_Inr_iff)
qed

lemma feature_rows:
  assumes "to_array (feature_frame sh) = Inr X" and "8 \<le> length (cols sh)"
    and "i < nrows sh"
  shows "length X = nrows sh \<and> length (X ! i) = 8
         \<and> map Num (X ! i) = map (\<lambda>c. c ! i) (take 8 (cols sh))"
proof -
  have len: "length X = nrows sh"
    using to_array_rows(1) [OF assms(1)] by (simp add: feature_frame_def)
  have "map (\<lambda>lc. cell_at (snd lc) i) (columns (feature_frame sh)) = map Inr (X ! i)"
    using assms(3) by (intro to_array_rows(2) [OF assms(1)]) (simp add: feature_frame_def)
  moreover have "map (\<lambda>lc. cell_at (snd lc) i) (columns (feature_frame sh))
      = map (\<lambda>c. cell_at c i) (take 8 (cols sh))"
    using assms(2)
    by (simp add: feature_frame_def map_snd_zip [symmetric] del: upt.simps
        flip: map_map [of "\<lambda>c. cell_at c i" snd, unfolded comp_def])
  ultimately have e: "map (\<lambda>c. cell_at c i) (take 8 (cols sh)) = map Inr (X ! i)" by simp
  from map_eq_imp_length_eq [OF e] assms(2) have l8: "length (X ! i) = 8" by simp
  have "map Num (X ! i) = map (\<lambda>c. c ! i) (take 8 (cols sh))"
  proof (rule nth_equalityI)
    show "length (map Num (X ! i)) = length (map (\<lambda>c. c ! i) (take 8 (cols sh)))"
      using l8 assms(2) by simp
  next
    fix j assume "j < length (map Num (X ! i))"
    with l8 have j: "j < 8" by simp
    have "map (\<lambda>c. cell_at c i) (take 8 (cols sh)) ! j = map Inr (X ! i) ! j"
      by (simp only: e)
    with j l8 assms(2) have "cell_at (take 8 (cols sh) ! j) i = Inr (X ! i ! j)" by simp
    then have "take 8 (cols sh) ! j ! i = Num (X ! i ! j)" by (simp add: cell_at_Inr)
    with j l8 assms(2) show "map Num (X ! i) ! j = map (\<lambda>c. c ! i) (take 8 (cols sh)) ! j"
      by simp
  qed
  with len l8 show ?thesis by simp
qed

lemma update_append: "k \<notin> fst ` set al \<Longrightarrow> AList.update k v al = al @ [(k, v)]"
  by (induction al) auto

lemma predicted_label_fresh: "predicted_label \<notin> fst ` set (columns (columns_astype_str sh))"
proof
  assume "predicted_label \<in> fst ` set (columns (columns_astype_str sh))"
  then have "predicted_label \<in> set (map fst (columns (columns_astype_str sh)))" by simp
  then obtain n where "predicted_label = str_nat n"
    unfolding frame_labels by auto
  moreover have "list_all is_digit (str_nat n)" by (rule str_nat_digits)
  ultimately have "list_all is_digit predicted_label" by simp
  then show False by (simp add: predicted_label_def asc_def is_digit_def)
qed

lemma setitem_predicted:
  "setitem (columns_astype_str sh) predicted_label preds =
     (if length preds \<noteq> nrows sh
      then Inl (ValueError (asc ''Length of values does not match length of index''))
      else Inr \<lparr>index_len = nrows sh,
               columns = zip (map str_nat [0..<length (cols sh)]) (cols sh)
                         @ [(predicted_label, map Num preds)]\<rparr>)"
  using predicted_label_fresh [of sh]
  by (simp add: setitem_def update_append frame_index) (simp add: columns_astype_str_def)

lemma read_features_Inr:
  assumes "read_features ev cur p = Inr (df, d)"
  shows "\<exists>sh. read_excel ev p = Inr sh \<and> 8 \<le> length (cols sh)
           \<and> list_all is_numeric_dtype (take 8 (cols sh))
           \<and> df = columns_astype_str sh \<and> d = feature_frame sh"
proof (cases "read_excel ev p")
  case (Inl e)
  with assms show ?thesis by (simp add: read_features_def)
next
  case (Inr sh)
  with assms show ?thesis
    by (auto simp: read_features_result split: if_splits)
qed

lemma saved_inversion:
  assumes "fst (batch_predict art ev s) = Some (Saved p)"
  shows "\<exists>df d X Xs preds df'. selected_file s \<noteq> []
     \<and> read_features ev (current_language s) (selected_file s) = Inr (df, d)
     \<and> to_array d = Inr X \<and> scaler_transform art X = Inr Xs
     \<and> model_predict art Xs = Inr preds
     \<and> setitem df predicted_label preds = Inr df'
     \<and> asksaveasfilename ev = p \<and> p \<noteq> [] \<and> to_excel ev p df' = None"
  using assms
  by (auto simp: batch_predict_def run_prediction_def run_guarded_def run_try_def
      scale_and_predict_def save_results_def Let_def
      split: if_splits sum.splits prod.splits option.splits)

section \<open>Batch runs that reach the save dialog\<close>

lemma batch_predict_computed:
  assumes "selected_file s \<noteq> []"
    and "read_features ev (current_language s) (selected_file s) = Inr (df, d)"
    and "to_array d = Inr X"
    and "scaler_transform art X = Inr Xs"
    and "model_predict art Xs = Inr preds"
    and "setitem df predicted_label preds = Inr df'"
  shows "calls (last (snd (batch_predict art ev s)))
           = calls s @ [ScalerTransform X, ModelPredict Xs]"
    and "asksaveasfilename ev = [] \<Longrightarrow>
           fst (batch_predict art ev s) = Some SaveCancelled
           \<and> (\<forall>st\<in>set (snd (batch_predict art ev s)).
                 files st = files s \<and> dialogs st = dialogs s)
           \<and> batch_status (last (snd (batch_predict art ev s)))
               = save_cancelled_msg (current_language s)"
    and "asksaveasfilename ev = p \<Longrightarrow> p \<noteq> [] \<Longrightarrow> to_excel ev p df' = None \<Longrightarrow>
           fst (batch_predict art ev s) = Some (Saved p)
           \<and> files (last (snd (batch_predict art ev s))) = files s @ [(p, df')]"
  using assms
  by (simp_all add: batch_predict_def run_prediction_def run_guarded_def run_try_def
      scale_and_predict_def save_results_def handle_error_def finally_steps_def Let_def
      split: option.splits)


lemma cancel_report_distinct:
  "save_cancelled_msg cur \<noteq> error_report (translations_dict l) e"
  by (cases cur; cases l)
     (simp_all add: error_report_def translations_en_def translations_zh_def asc_def)

text \<open>
  C9. A batch run on a table of at least 8 columns, the first 8 numeric, whose scaling
  and prediction succeed with one prediction per row, and whose save dialog is
  cancelled, ends in the cancelled state: no state of the run has a file written or a
  dialog shown, the status ends as the cancellation text, and that text differs from
  every error report, whatever the language and the exception.
\<close>

theorem cancelled_save_writes_nothing:
  assumes "selected_file s \<noteq> []"
    and "read_excel ev (selected_file s) = Inr sh"
    and "8 \<le> length (cols sh)"
    and "list_all is_numeric_dtype (take 8 (cols sh))"
    and "to_array (feature_frame sh) = Inr X"
    and "scaler_transform art X = Inr Xs"
    and "model_predict art Xs = Inr preds"
    and "length preds = nrows sh"
    and "asksaveasfilename ev = []"
  shows "fst (batch_predict art ev s) = Some SaveCancelled
    \<and> (\<forall>st\<in>set (snd (batch_predict art ev s)). files st = files s \<and> dialogs st = dialogs s)
    \<and> batch_status (last (snd (batch_predict art ev s)))
        = save_cancelled_msg (current_language s)
    \<and> (\<forall>l e. save_cancelled_msg (current_language s)
                \<noteq> error_report (translations_dict l) e)"
proof -
  have rf: "read_features ev (current_language s) (selected_file s)
      = Inr (columns_astype_str sh, feature_frame sh)"
    using assms(2-4) by (simp add: read_features_result)
  obtain df' where si: "setitem (columns_astype_str sh) predicted_label preds = Inr df'"
    using assms(8) by (simp add: setitem_predicted)
  show ?thesis
    using batch_predict_computed(2) [OF assms(1) rf assms(5-7) si assms(9)]
      cancel_report_distinct
    by simp
qed


lemma pipeline_row:
  assumes "scaler_transform art [v] = Inr [w]" and "model_predict art [w] = Inr [y]"
  shows "fst (pipeline art v s) = Inr y"
  using assms by (simp add: pipeline_def Let_def)

text \<open>
  C1. With a scaler and a model that work row by row, when a batch run ends with the
  table saved, the 8 numbers \<open>vs\<close> of row \<open>i\<close> of the table read are such that the
  single-prediction pipeline on \<open>vs\<close> (the scaler on \<open>[vs]\<close>, then the model, first
  output) returns the value at position \<open>i\<close> of the appended column, and the columns
  read keep their order and their rows.
\<close>

theorem batch_row_equals_single_prediction:
  assumes "read_excel ev (selected_file s) = Inr sh"
    and "fst (batch_predict art ev s) = Some (Saved p)"
    and "rowwise art"
    and "i < nrows sh"
  shows "\<exists>vs y pcol df.
      map Num vs = map (\<lambda>c. c ! i) (take 8 (cols sh))
    \<and> fst (pipeline art vs s) = Inr y
    \<and> files (last (snd (batch_predict art ev s))) = files s @ [(p, df)]
    \<and> columns df = zip (map str_nat [0..<length (cols sh)]) (cols sh)
                     @ [(predicted_label, pcol)]
    \<and> length pcol = nrows sh
    \<and> pcol ! i = Num y"
proof -
  from saved_inversion [OF assms(2)] obtain df d X Xs preds df' where
    sel: "selected_file s \<noteq> []"
    and rf: "read_features ev (current_language s) (selected_file s) = Inr (df, d)"
    and arr: "to_array d = Inr X" and sc: "scaler_transform art X = Inr Xs"
    and pr: "model_predict art Xs = Inr preds"
    and si: "setitem df predicted_label preds = Inr df'"
    and p: "asksaveasfilename ev = p" "p \<noteq> []" "to_excel ev p df' = None"
    by blast
  from read_features_Inr [OF rf] assms(1)
  have df: "df = columns_astype_str sh" and d: "d = feature_frame sh"
    and n: "8 \<le> length (cols sh)" by auto
  from si df have len: "length preds = nrows sh"
    and df': "columns df' = zip (map str_nat [0..<length (cols sh)]) (cols sh)
                            @ [(predicted_label, map Num preds)]"
    by (auto simp: setitem_predicted split: if_splits)
  from feature_rows [OF arr [unfolded d] n assms(4)]
  have lx: "length X = nrows sh"
    and row: "map Num (X ! i) = map (\<lambda>c. c ! i) (take 8 (cols sh))" by simp_all
  from assms(3) sc have lxs: "length Xs = length X"
    and srow: "\<forall>k<length X. scaler_transform art [X ! k] = Inr [Xs ! k]"
    unfolding rowwise_def by blast+
  from assms(3) pr have mrow: "\<forall>k<length Xs. model_predict art [Xs ! k] = Inr [preds ! k]"
    unfolding rowwise_def by blast
  from srow lx assms(4) have "scaler_transform art [X ! i] = Inr [Xs ! i]" by simp
  moreover from mrow lxs lx assms(4) have "model_predict art [Xs ! i] = Inr [preds ! i]"
    by simp
  ultimately have single: "fst (pipeline art (X ! i) s) = Inr (preds ! i)"
    by (rule pipeline_row)
  from batch_predict_computed(3) [OF sel rf arr sc pr si p]
  have f: "files (last (snd (batch_predict art ev s))) = files s @ [(p, df')]" by simp
  have "map Num preds ! i = Num (preds ! i)" using len assms(4) by simp
  with row single f df' len show ?thesis
    by (intro exI [of _ "X ! i"] exI [of _ "preds ! i"] exI [of _ "map Num preds"]
        exI [of _ df']) simp
qed

section \<open>The run of the example table\<close>

lemma example_read: "read_excel example_env (selected_file batch_ui) = Inr example_sheet"
  by (simp add: conjunct1 [OF batch_ui_file] example_env_def)

lemma cancelling_read: "read_excel cancelling_env (selected_file batch_ui) = Inr example_sheet"
  by (simp add: conjunct1 [OF batch_ui_file] cancelling_env_def example_env_def)

lemma example_wide: "8 \<le> length (cols example_sheet)"
  by (simp add: example_sheet_def)

lemma example_numeric: "list_all is_numeric_dtype (take 8 (cols example_sheet))"
  by (simp add: example_sheet_def is_numeric_dtype_def)

lemma example_array:
  "to_array (feature_frame example_sheet) =
     Inr [[PyFloat 25, PyInt 2, PyInt 1, PyInt 3, PyFloat 12, PyInt 100, PyFloat 30,
           PyFloat (3 / 2)],
          [PyFloat 60, PyInt 5, PyInt 3, PyInt 1, PyFloat 16, PyInt 80, PyFloat 45,
           PyFloat 2]]"
  by (simp add: to_array_def feature_frame_def example_sheet_def cell_at_def upt_conv_Cons)

lemma example_scaled:
  "scaler_transform example_artifacts
     [[PyFloat 25, PyInt 2, PyInt 1, PyInt 3, PyFloat 12, PyInt 100, PyFloat 30,
       PyFloat (3 / 2)],
      [PyFloat 60, PyInt 5, PyInt 3, PyInt 1, PyFloat 16, PyInt 80, PyFloat 45,
       PyFloat 2]] =
   Inr [[PyFloat 50, PyInt 4, PyInt 2, PyInt 6, PyFloat 24, PyInt 200, PyFloat 60,
         PyFloat 3],
        [PyFloat 120, PyInt 10, PyInt 6, PyInt 2, PyFloat 32, PyInt 160, PyFloat 90,
         PyFloat 4]]"
  by (simp add: example_artifacts_def)

lemma example_predicted:
  "model_predict example_artifacts
     [[PyFloat 50, PyInt 4, PyInt 2, PyInt 6, PyFloat 24, PyInt 200, PyFloat 60,
       PyFloat 3],
      [PyFloat 120, PyInt 10, PyInt 6, PyInt 2, PyFloat 32, PyInt 160, PyFloat 90,
       PyFloat 4]] = Inr [PyFloat 50, PyFloat 120]"
  by (simp add: example_artifacts_def)

lemma example_features:
  assumes "read_excel ev p = Inr example_sheet"
  shows "read_features ev cur p
           = Inr (columns_astype_str example_sheet, feature_frame example_sheet)"
  using assms example_wide example_numeric by (simp add: read_features_result)

lemma example_setitem:
  "\<exists>df'. setitem (columns_astype_str example_sheet) predicted_label [PyFloat 50, PyFloat 120]
     = Inr df'"
  by (simp add: setitem_predicted example_sheet_def)

lemma example_saved:
  "fst (batch_predict example_artifacts example_env batch_ui)
     = Some (Saved (asc ''predicted_data.xlsx''))"
proof -
  obtain df' where si: "setitem (columns_astype_str example_sheet) predicted_label
      [PyFloat 50, PyFloat 120] = Inr df'"
    using example_setitem by blast
  have p: "asksaveasfilename example_env = asc ''predicted_data.xlsx''"
    "asc ''predicted_data.xlsx'' \<noteq> []"
    "to_excel example_env (asc ''predicted_data.xlsx'') df' = None"
    by (simp_all add: example_env_def asc_def)
  show ?thesis
    using batch_predict_computed(3) [OF conjunct2 [OF batch_ui_file]
        example_features [OF example_read] example_array example_scaled example_predicted si p]
    by simp
qed

lemma example_rowwise: "rowwise example_artifacts"
  by (auto simp: rowwise_def example_artifacts_def)

text \<open>The run of the example with the save dialog cancelled.\<close>

theorem cancelled_save_writes_nothing_witness:
  "selected_file batch_ui \<noteq> []
   \<and> read_excel cancelling_env (selected_file batch_ui) = Inr example_sheet
   \<and> 8 \<le> length (cols example_sheet)
   \<and> list_all is_numeric_dtype (take 8 (cols example_sheet))
   \<and> asksaveasfilename cancelling_env = []
   \<and> fst (batch_predict example_artifacts cancelling_env batch_ui) = Some SaveCancelled
   \<and> list_all (\<lambda>st. files st = [] \<and> dialogs st = [])
         (snd (batch_predict example_artifacts cancelling_env batch_ui))
   \<and> batch_status (last (snd (batch_predict example_artifacts cancelling_env batch_ui)))
       = save_cancelled_msg Zh"
proof -
  have f: "selected_file batch_ui \<noteq> []"
    by (rule conjunct2 [OF batch_ui_file])
  have l: "length [PyFloat 50, PyFloat 120] = nrows example_sheet"
    by (simp add: example_sheet_def)
  have c: "asksaveasfilename cancelling_env = []"
    by (simp add: cancelling_env_def)
  have u: "current_language batch_ui = Zh" "files batch_ui = []" "dialogs batch_ui = []"
    by (simp_all add: batch_ui_def example_ui_def)
  show ?thesis
    using f cancelling_read example_wide example_numeric c
      cancelled_save_writes_nothing [OF f cancelling_read example_wide example_numeric
        example_array example_scaled example_predicted l c]
    by (simp add: u list_all_iff)
qed


text \<open>The second row of the example.\<close>

theorem batch_row_equals_single_prediction_witness:
  "read_excel example_env (selected_file batch_ui) = Inr example_sheet
   \<and> fst (batch_predict example_artifacts example_env batch_ui)
       = Some (Saved (asc ''predicted_data.xlsx''))
   \<and> rowwise example_artifacts
   \<and> 1 < nrows example_sheet
   \<and> (\<exists>vs y pcol df.
         map Num vs = map (\<lambda>c. c ! 1) (take 8 (cols example_sheet))
       \<and> fst (pipeline example_artifacts vs batch_ui) = Inr y
       \<and> files (last (snd (batch_predict example_artifacts example_env batch_ui)))
           = files batch_ui @ [(asc ''predicted_data.xlsx'', df)]
       \<and> columns df = zip (map str_nat [0..<length (cols example_sheet)])
                           (cols example_sheet) @ [(predicted_label, pcol)]
       \<and> length pcol = nrows example_sheet
       \<and> pcol ! 1 = Num y)"
proof -
  have i: "1 < nrows example_sheet"
    by (simp add: example_sheet_def)
  show ?thesis
    using example_read example_saved example_rowwise i
      batch_row_equals_single_prediction [OF example_read example_saved example_rowwise i]
    by simp
qed

section \<open>What is handed to the scaler\<close>





section \<open>The codes of the categorical features\<close>














end
